theory Spec2Isabelle
  imports Complex_Main "HOL-Library.Multiset" "HOL-Library.AList" "HOL-Library.List_Lexorder" "HOL-Library.Char_ord"
begin

section \<open>Numbers of a pandas column\<close>

text \<open>
  A cell of a numeric pandas column is a float: a finite number, one of the two infinities,
  or NaN (which is also how pandas writes a missing value). Finite numbers are modelled
  exactly, as rationals; rounding of the binary representation is not modelled. What is
  modelled is where NaN and the infinities come from and how they propagate, since the
  source relies on \<^verbatim>\<open>fillna\<close>, on division by zero giving an infinity, and on
  comparisons with NaN being false.
\<close>

datatype pyfloat = Fin rat | PInf | NInf | NaN

text \<open>\<^verbatim>\<open>x < c\<close> for a float \<open>x\<close> and a finite constant \<open>c\<close>.\<close>

fun fl_less :: "pyfloat \<Rightarrow> rat \<Rightarrow> bool" where
  "fl_less (Fin x) c = (x < c)"
| "fl_less NInf c = True"
| "fl_less PInf c = False"
| "fl_less NaN c = False"

section \<open>Grades\<close>

datatype grade = A | B | C | D

text \<open>
  \<^verbatim>\<open>BlueDataETL._assign_grade\<close> (scripts/etl.py) applies the local function
  \<^verbatim>\<open>grade_assigner\<close> to every entry of the \<^verbatim>\<open>Risk_Score\<close> column:
  \<^verbatim>\<open>
    if score < 0.25: return 'A'
    elif score < 0.5: return 'B'
    elif score < 0.75: return 'C'
    else: return 'D'
  \<close>
\<close>

definition grade_assigner :: "pyfloat \<Rightarrow> grade" where
  "grade_assigner score =
     (if fl_less score (1/4) then A
      else if fl_less score (1/2) then B
      else if fl_less score (3/4) then C
      else D)"

text \<open>
  \<^verbatim>\<open>BlueDataML._assign_grade\<close> (scripts/train.py) grades the risk score of a
  prediction with its own thresholds 0.08, 0.2 and 0.55.
\<close>

definition ml_assign_grade :: "pyfloat \<Rightarrow> grade" where
  "ml_assign_grade risk_score =
     (if fl_less risk_score (8/100) then A
      else if fl_less risk_score (2/10) then B
      else if fl_less risk_score (55/100) then C
      else D)"

section \<open>Float arithmetic of the columns\<close>

text \<open>
  A numeric cell read from the spreadsheet is a finite number or empty (NaN); it is a
  \<open>rat option\<close>, with \<open>None\<close> for NaN. Subtraction of such cells stays in that
  type; division is where the infinities appear (numpy divides by zero without raising).
\<close>

type_synonym num = "rat option"

definition to_fl :: "num \<Rightarrow> pyfloat" where
  "to_fl x = (case x of None \<Rightarrow> NaN | Some v \<Rightarrow> Fin v)"

definition num_sub :: "num \<Rightarrow> num \<Rightarrow> num" where
  "num_sub a b = (case a of None \<Rightarrow> None | Some x \<Rightarrow> (case b of None \<Rightarrow> None | Some y \<Rightarrow> Some (x - y)))"

fun fl_div :: "pyfloat \<Rightarrow> pyfloat \<Rightarrow> pyfloat" where
  "fl_div NaN y = NaN"
| "fl_div x NaN = NaN"
| "fl_div (Fin a) (Fin b) =
     (if b = 0 then (if a = 0 then NaN else if 0 < a then PInf else NInf) else Fin (a / b))"
| "fl_div (Fin a) PInf = Fin 0"
| "fl_div (Fin a) NInf = Fin 0"
| "fl_div PInf (Fin b) = (if 0 \<le> b then PInf else NInf)"
| "fl_div NInf (Fin b) = (if 0 \<le> b then NInf else PInf)"
| "fl_div PInf PInf = NaN"
| "fl_div PInf NInf = NaN"
| "fl_div NInf PInf = NaN"
| "fl_div NInf NInf = NaN"

text \<open>\<^verbatim>\<open>c * x\<close> for a positive finite constant \<open>c\<close>.\<close>

fun fl_scale :: "rat \<Rightarrow> pyfloat \<Rightarrow> pyfloat" where
  "fl_scale c (Fin x) = Fin (c * x)"
| "fl_scale c PInf = PInf"
| "fl_scale c NInf = NInf"
| "fl_scale c NaN = NaN"

fun fl_add :: "pyfloat \<Rightarrow> pyfloat \<Rightarrow> pyfloat" where
  "fl_add NaN y = NaN"
| "fl_add x NaN = NaN"
| "fl_add (Fin a) (Fin b) = Fin (a + b)"
| "fl_add (Fin a) PInf = PInf"
| "fl_add (Fin a) NInf = NInf"
| "fl_add PInf (Fin b) = PInf"
| "fl_add NInf (Fin b) = NInf"
| "fl_add PInf PInf = PInf"
| "fl_add NInf NInf = NInf"
| "fl_add PInf NInf = NaN"
| "fl_add NInf PInf = NaN"

text \<open>\<^verbatim>\<open>Series.fillna(v)\<close> on one float cell: only NaN is replaced.\<close>

definition fl_fillna :: "rat \<Rightarrow> pyfloat \<Rightarrow> pyfloat" where
  "fl_fillna v x = (if x = NaN then Fin v else x)"

definition num_fillna :: "rat \<Rightarrow> num \<Rightarrow> num" where
  "num_fillna v x = (case x of None \<Rightarrow> Some v | Some y \<Rightarrow> Some y)"

definition str_fillna :: "string \<Rightarrow> string option \<Rightarrow> string option" where
  "str_fillna v x = (case x of None \<Rightarrow> Some v | Some y \<Rightarrow> Some y)"

text \<open>\<^verbatim>\<open>Series.min()\<close> and \<^verbatim>\<open>Series.max()\<close> skip NaN; on a column without a number they are NaN.\<close>

fun col_min :: "num list \<Rightarrow> num" where
  "col_min [] = None"
| "col_min (None # xs) = col_min xs"
| "col_min (Some x # xs) = (case col_min xs of None \<Rightarrow> Some x | Some m \<Rightarrow> Some (min x m))"

fun col_max :: "num list \<Rightarrow> num" where
  "col_max [] = None"
| "col_max (None # xs) = col_max xs"
| "col_max (Some x # xs) = (case col_max xs of None \<Rightarrow> Some x | Some m \<Rightarrow> Some (max x m))"

section \<open>Time\<close>

text \<open>
  A timestamp is a count of nanoseconds (the resolution of pandas' \<^verbatim>\<open>datetime64[ns]\<close>).
  \<^verbatim>\<open>.dt.days\<close> of a difference of timestamps is the whole number of days, rounded
  towards minus infinity; \<open>div\<close> on \<open>int\<close> rounds that way. On NaT it is NaN.
\<close>

type_synonym timestamp = int

definition ns_per_day :: int where
  "ns_per_day = 86400000000000"

definition dt_days :: "timestamp \<Rightarrow> timestamp option \<Rightarrow> num" where
  "dt_days now d = (case d of None \<Rightarrow> None | Some t \<Rightarrow> Some (of_int ((now - t) div ns_per_day)))"

section \<open>The ETL pipeline (scripts/etl.py)\<close>

text \<open>
  The methods of \<^verbatim>\<open>BlueDataETL\<close> keep their names, without the leading underscore:
  \<^verbatim>\<open>_engineer_features\<close>, \<^verbatim>\<open>_calculate_risk_score\<close>, \<^verbatim>\<open>_assign_grade\<close>. The model
  is the path on which nothing raises; on an exception \<^verbatim>\<open>clean_data\<close> logs it and
  returns \<^verbatim>\<open>False\<close>.

  A row of the frame read by \<^verbatim>\<open>BlueDataETL.load_data\<close>: the five required columns and
  the optional \<^verbatim>\<open>Date\<close> column, which \<^verbatim>\<open>clean_data\<close> has passed through
  \<^verbatim>\<open>pd.to_datetime(errors='coerce')\<close>, so that an unparseable date is NaT (\<open>None\<close>).
  The pipeline does not coerce the two numeric columns; they are numeric as read.
\<close>

record etl_row =
  Outlet :: "string option"
  Sum_of_Gallons_Collected :: num
  Sum_of_No_of_Traps :: num
  Area :: "string option"
  Category :: "string option"
  Date :: "timestamp option"

text \<open>The columns added by \<^verbatim>\<open>_engineer_features\<close>. The synthetic coordinates and the
  \<^verbatim>\<open>Month\<close> column are left out: nothing below reads them.\<close>

record etl_processed = etl_row +
  Days_Since_Collection :: num
  Gallons_per_Trap :: pyfloat
  Risk_Score :: pyfloat
  Grade :: grade

text \<open>\<^verbatim>\<open>
  self.processed_df = self.processed_df.fillna({'Sum of Gallons Collected': 0,
      'Sum of No of Traps': 1, 'Area': 'Unknown', 'Category': 'Unknown'})\<close>\<close>

definition etl_fillna :: "etl_row \<Rightarrow> etl_row" where
  "etl_fillna r = r\<lparr>Sum_of_Gallons_Collected := num_fillna 0 (Sum_of_Gallons_Collected r),
                     Sum_of_No_of_Traps := num_fillna 1 (Sum_of_No_of_Traps r),
                     Area := str_fillna ''Unknown'' (Area r),
                     Category := str_fillna ''Unknown'' (Category r)\<rparr>"

text \<open>
  \<^verbatim>\<open>Days_Since_Collection\<close>: with a \<^verbatim>\<open>Date\<close> column it is
  \<^verbatim>\<open>(today - Date).dt.days\<close>; without one it is \<^verbatim>\<open>np.random.randint(1, 90, n)\<close>,
  whose draws are the parameter \<open>randint\<close> (one per row position). \<open>has_date\<close> says
  whether the frame has the column; \<open>today\<close> is the value of \<^verbatim>\<open>pd.Timestamp.now()\<close>.
  The handler around the first case, which falls back to the random draws, is not
  reached: the column is a datetime column already.
\<close>

definition etl_days :: "timestamp \<Rightarrow> (nat \<Rightarrow> int) \<Rightarrow> bool \<Rightarrow> etl_row list \<Rightarrow> num list" where
  "etl_days today randint has_date rows =
     (if has_date then map (\<lambda>r. dt_days today (Date r)) rows
      else map (\<lambda>i. Some (of_int (randint i))) [0..<length rows])"

text \<open>\<^verbatim>\<open>(df['Sum of Gallons Collected'] / df['Sum of No of Traps']).fillna(0)\<close>\<close>

definition etl_gallons_per_trap :: "etl_row \<Rightarrow> pyfloat" where
  "etl_gallons_per_trap r =
     fl_fillna 0 (fl_div (to_fl (Sum_of_Gallons_Collected r)) (to_fl (Sum_of_No_of_Traps r)))"

text \<open>The min-max normalisation \<^verbatim>\<open>(col - col.min()) / (col.max() - col.min())\<close>.\<close>

definition minmax_norm :: "num list \<Rightarrow> pyfloat list" where
  "minmax_norm col =
     map (\<lambda>x. fl_div (to_fl (num_sub x (col_min col)))
                      (to_fl (num_sub (col_max col) (col_min col)))) col"

text \<open>\<^verbatim>\<open>
  risk_score = (0.4 * gallons_norm + 0.6 * days_norm)
  return risk_score.fillna(0.5)\<close>\<close>

definition calculate_risk_score :: "num list \<Rightarrow> num list \<Rightarrow> pyfloat list" where
  "calculate_risk_score gallons days =
     map (\<lambda>(g, d). fl_fillna (1/2) (fl_add (fl_scale (4/10) g) (fl_scale (6/10) d)))
         (zip (minmax_norm gallons) (minmax_norm days))"

definition assign_grade :: "pyfloat list \<Rightarrow> grade list" where
  "assign_grade risk = map grade_assigner risk"

definition engineer_features :: "timestamp \<Rightarrow> (nat \<Rightarrow> int) \<Rightarrow> bool \<Rightarrow> etl_row list \<Rightarrow> etl_processed list" where
  "engineer_features today randint has_date rows =
     (let days = etl_days today randint has_date rows;
          risk = calculate_risk_score (map Sum_of_Gallons_Collected rows) days;
          grades = assign_grade risk
      in map (\<lambda>(r, d, s, g).
                etl_row.extend r (etl_processed.fields d (etl_gallons_per_trap r) s g))
             (zip rows (zip days (zip risk grades))))"

text \<open>\<^verbatim>\<open>BlueDataETL.clean_data\<close>: fill the missing values, then engineer the features.\<close>

definition etl_clean_data :: "timestamp \<Rightarrow> (nat \<Rightarrow> int) \<Rightarrow> bool \<Rightarrow> etl_row list \<Rightarrow> etl_processed list" where
  "etl_clean_data today randint has_date raw =
     engineer_features today randint has_date (map etl_fillna raw)"

section \<open>The data processor (backend/utils/helpers/data_processor.py)\<close>

text \<open>
  A cell of a column that \<^verbatim>\<open>clean_data\<close> coerces: a float (NaN when the cell is empty),
  a timestamp, a text, or NaT, the missing timestamp.
\<close>

datatype cell = Num pyfloat | Stamp timestamp | Text string | NaT

text \<open>
  \<^verbatim>\<open>pd.to_datetime(col, errors='coerce')\<close>: a timestamp stays, a missing cell is NaT,
  and any other cell goes through pandas' best-effort parser, the parameter \<open>parse\<close>,
  whose failure gives NaT instead of raising.
\<close>

definition to_datetime :: "(cell \<Rightarrow> timestamp option) \<Rightarrow> cell \<Rightarrow> cell" where
  "to_datetime parse c =
     (case c of
        Stamp t \<Rightarrow> Stamp t
      | NaT \<Rightarrow> NaT
      | Num NaN \<Rightarrow> NaT
      | _ \<Rightarrow> (case parse c of Some t \<Rightarrow> Stamp t | None \<Rightarrow> NaT))"

text \<open>
  \<^verbatim>\<open>pd.to_numeric(col, errors='coerce')\<close>: a number stays; any other cell is parsed by
  the parameter \<open>parse\<close>, which is NaN where pandas cannot read a number.
\<close>

definition to_numeric :: "(cell \<Rightarrow> pyfloat) \<Rightarrow> cell \<Rightarrow> cell" where
  "to_numeric parse c = (case c of Num x \<Rightarrow> Num x | _ \<Rightarrow> Num (parse c))"

text \<open>The float of a cell of a numeric column.\<close>

definition cell_float :: "cell \<Rightarrow> pyfloat" where
  "cell_float c = (case c of Num x \<Rightarrow> x | _ \<Rightarrow> NaN)"

text \<open>\<^verbatim>\<open>(now - col).dt.days\<close> on a cell of a datetime column.\<close>

definition cell_days :: "timestamp \<Rightarrow> cell \<Rightarrow> pyfloat" where
  "cell_days now c = (case c of Stamp t \<Rightarrow> Fin (of_int ((now - t) div ns_per_day)) | _ \<Rightarrow> NaN)"

text \<open>\<^verbatim>\<open>col.replace([np.inf, -np.inf], np.nan)\<close>\<close>

definition replace_inf :: "pyfloat \<Rightarrow> pyfloat" where
  "replace_inf x = (if x = PInf \<or> x = NInf then NaN else x)"

text \<open>
  A row of \<^verbatim>\<open>DataProcessor.df\<close>. The columns, in the order of the fields:
  \<^verbatim>\<open>Entity Mapping.Outlet\<close>, \<^verbatim>\<open>Collected Date\<close>, \<^verbatim>\<open>Month\<close>, \<^verbatim>\<open>Area\<close>,
  \<^verbatim>\<open>Zone\<close>, \<^verbatim>\<open>Category\<close>, \<^verbatim>\<open>Sum of Gallons Collected\<close>, \<^verbatim>\<open>Sum of No of Traps\<close>,
  and the two columns that \<^verbatim>\<open>clean_data\<close> adds, \<^verbatim>\<open>Days_Since_Collection\<close> and
  \<^verbatim>\<open>Gallons_per_Trap\<close> (it overwrites them when they are there already). The nominal
  columns hold a text or nothing.
\<close>

record dp_row =
  dp_Outlet :: "string option"
  dp_Collected_Date :: cell
  dp_Month :: cell
  dp_Area :: "string option"
  dp_Zone :: "string option"
  dp_Category :: "string option"
  dp_Gallons :: cell
  dp_Traps :: cell
  dp_Days_Since_Collection :: pyfloat
  dp_Gallons_per_Trap :: pyfloat

text \<open>
  The body of \<^verbatim>\<open>DataProcessor.clean_data\<close> on one row, in the order of the source:
  the dates, the three \<^verbatim>\<open>fillna('Unknown')\<close>, the two numeric columns, the two derived
  columns, and the replacement of the infinities. \<open>now\<close> is the value of
  \<^verbatim>\<open>datetime.now()\<close> that the run reads.
\<close>

definition clean_row ::
  "(cell \<Rightarrow> timestamp option) \<Rightarrow> (cell \<Rightarrow> pyfloat) \<Rightarrow> timestamp \<Rightarrow> dp_row \<Rightarrow> dp_row" where
  "clean_row parse_date parse_num now r =
     (let collected = to_datetime parse_date (dp_Collected_Date r);
          gallons = to_numeric parse_num (dp_Gallons r);
          traps = to_numeric parse_num (dp_Traps r)
      in r\<lparr>dp_Collected_Date := collected,
            dp_Month := to_datetime parse_date (dp_Month r),
            dp_Area := str_fillna ''Unknown'' (dp_Area r),
            dp_Zone := str_fillna ''Unknown'' (dp_Zone r),
            dp_Category := str_fillna ''Unknown'' (dp_Category r),
            dp_Gallons := gallons,
            dp_Traps := traps,
            dp_Days_Since_Collection := cell_days now collected,
            dp_Gallons_per_Trap := replace_inf (fl_div (cell_float gallons) (cell_float traps))\<rparr>)"

text \<open>The processor holds the frame, or \<^verbatim>\<open>None\<close> before \<^verbatim>\<open>load_data\<close>.\<close>

record data_processor =
  df :: "dp_row list option"

text \<open>
  \<^verbatim>\<open>clean_data\<close> returns \<^verbatim>\<open>False\<close> when no frame is loaded and otherwise cleans
  the frame in place and returns \<^verbatim>\<open>True\<close>.
\<close>

definition clean_data ::
  "(cell \<Rightarrow> timestamp option) \<Rightarrow> (cell \<Rightarrow> pyfloat) \<Rightarrow> timestamp \<Rightarrow> data_processor
     \<Rightarrow> bool \<times> data_processor" where
  "clean_data parse_date parse_num now self =
     (case df self of
        None \<Rightarrow> (False, self)
      | Some rows \<Rightarrow> (True, self\<lparr>df := Some (map (clean_row parse_date parse_num now) rows)\<rparr>))"

section \<open>Aggregation in the data processor\<close>







definition gallons_of :: "dp_row \<Rightarrow> pyfloat" where
  "gallons_of r = cell_float (dp_Gallons r)"




section \<open>The first backend (backend/app.py)\<close>

text \<open>Arithmetic on cells that are a finite number or NaN; NaN propagates.\<close>

definition num_add :: "num \<Rightarrow> num \<Rightarrow> num" where
  "num_add a b = (case a of None \<Rightarrow> None | Some x \<Rightarrow> (case b of None \<Rightarrow> None | Some y \<Rightarrow> Some (x + y)))"

text \<open>\<^verbatim>\<open>x * c\<close> and \<^verbatim>\<open>c - x\<close> for a finite constant \<open>c\<close>.\<close>

definition num_times :: "num \<Rightarrow> rat \<Rightarrow> num" where
  "num_times a c = (case a of None \<Rightarrow> None | Some x \<Rightarrow> Some (x * c))"

definition num_rsub :: "rat \<Rightarrow> num \<Rightarrow> num" where
  "num_rsub c a = (case a of None \<Rightarrow> None | Some x \<Rightarrow> Some (c - x))"

text \<open>\<^verbatim>\<open>col.clip(lower=c)\<close>\<close>

definition num_clip_lower :: "rat \<Rightarrow> num \<Rightarrow> num" where
  "num_clip_lower c a = (case a of None \<Rightarrow> None | Some x \<Rightarrow> Some (max c x))"

text \<open>\<^verbatim>\<open>x > c\<close> for a finite constant \<open>c\<close>; false on NaN.\<close>

definition num_greater :: "num \<Rightarrow> rat \<Rightarrow> bool" where
  "num_greater a c = (case a of None \<Rightarrow> False | Some x \<Rightarrow> c < x)"

text \<open>
  A row of the spreadsheet as \<^verbatim>\<open>load_and_process_data\<close> reads it. The date column has
  been through \<^verbatim>\<open>pd.to_datetime(errors='coerce')\<close>; the numeric columns are numeric.
\<close>

record app_row =
  Outlet_Name :: "string option"
  Outlet_Type :: "string option"
  Location :: "string option"
  Last_Cleaning_Date :: "timestamp option"
  Trap_Efficiency :: num
  Missed_Cleanings :: num
  Total_Cleanings :: num
  Gallons_Collected :: num

text \<open>The three derived columns; the last one is the column \<^verbatim>\<open>Risk_Score\<close> of this frame.\<close>

record app_derived = app_row +
  Days_Since_Last_Cleaning :: num
  Cleaning_Frequency :: pyfloat
  app_Risk_Score :: num

text \<open>\<^verbatim>\<open>df = df.dropna(subset=['Outlet_Name', 'Outlet_Type', 'Location'])\<close>\<close>

definition app_dropna :: "app_row list \<Rightarrow> app_row list" where
  "app_dropna rows =
     filter (\<lambda>r. Outlet_Name r \<noteq> None \<and> Outlet_Type r \<noteq> None \<and> Location r \<noteq> None) rows"

text \<open>\<^verbatim>\<open>df[numeric_columns] = df[numeric_columns].fillna(0)\<close>\<close>

definition app_fillna :: "app_row \<Rightarrow> app_row" where
  "app_fillna r = r\<lparr>Trap_Efficiency := num_fillna 0 (Trap_Efficiency r),
                     Missed_Cleanings := num_fillna 0 (Missed_Cleanings r),
                     Total_Cleanings := num_fillna 0 (Total_Cleanings r),
                     Gallons_Collected := num_fillna 0 (Gallons_Collected r)\<rparr>"

text \<open>\<^verbatim>\<open>
  df['Days_Since_Last_Cleaning'] = (datetime.now() - df['Last_Cleaning_Date']).dt.days
  df['Cleaning_Frequency'] = df['Total_Cleanings'] / df['Days_Since_Last_Cleaning'].clip(lower=1)
  df['Risk_Score'] = (df['Days_Since_Last_Cleaning'] * 0.3 +
                      (100 - df['Trap_Efficiency']) * 0.4 +
                      (df['Missed_Cleanings'] * 10) * 0.3)\<close>\<close>

definition app_derive :: "timestamp \<Rightarrow> app_row \<Rightarrow> app_derived" where
  "app_derive now r =
     (let days = dt_days now (Last_Cleaning_Date r)
      in app_row.extend r
           (app_derived.fields days
              (fl_div (to_fl (Total_Cleanings r)) (to_fl (num_clip_lower 1 days)))
              (num_add (num_add (num_times days (3/10))
                                (num_times (num_rsub 100 (Trap_Efficiency r)) (4/10)))
                       (num_times (num_times (Missed_Cleanings r) 10) (3/10)))))"

text \<open>The frame that \<^verbatim>\<open>load_and_process_data\<close> leaves in the global \<^verbatim>\<open>df\<close>.\<close>

definition load_and_process_data :: "timestamp \<Rightarrow> app_row list \<Rightarrow> app_derived list" where
  "load_and_process_data now rows = map (app_derive now) (map app_fillna (app_dropna rows))"

text \<open>
  The risk score as the specification writes it, for comparison with the code:
  \<^verbatim>\<open>0.3 * min(days_since_collection, 100) + 0.4 * (100 - efficiency) + 0.3 * (missed_count * 10)\<close>
\<close>

definition spec_risk_score :: "rat \<Rightarrow> rat \<Rightarrow> rat \<Rightarrow> rat" where
  "spec_risk_score days efficiency missed_count =
     3/10 * min days 100 + 4/10 * (100 - efficiency) + 3/10 * (missed_count * 10)"

text \<open>
  \<^verbatim>\<open>DataFrame.sort_values(key, ascending=False)\<close>. pandas takes the rows whose key is a
  number, reverses them, sorts them ascending and reverses the result; the rows whose
  key is NaN go last. Its sort is numpy's default one, which promises no order among
  equal keys; on short columns it is an insertion sort, and \<open>sort_key\<close> is that sort.
\<close>

definition num_value :: "num \<Rightarrow> rat" where
  "num_value a = (case a of None \<Rightarrow> 0 | Some x \<Rightarrow> x)"

definition sort_values_desc :: "('a \<Rightarrow> num) \<Rightarrow> 'a list \<Rightarrow> 'a list" where
  "sort_values_desc key rows =
     rev (sort_key (\<lambda>r. num_value (key r)) (rev (filter (\<lambda>r. key r \<noteq> None) rows)))
     @ filter (\<lambda>r. key r = None) rows"

text \<open>\<^verbatim>\<open>
  high_risk = df[df['Risk_Score'] > 70].copy()
  high_risk = high_risk.sort_values('Risk_Score', ascending=False)\<close>\<close>

definition high_risk :: "app_derived list \<Rightarrow> app_derived list" where
  "high_risk rows = sort_values_desc app_Risk_Score (filter (\<lambda>r. num_greater (app_Risk_Score r) 70) rows)"

text \<open>One entry of \<^verbatim>\<open>weekly_schedule\<close>; the dates are kept as timestamps.\<close>

record week_schedule =
  week :: nat
  start_date :: timestamp
  end_date :: timestamp
  outlets :: "app_derived list"

text \<open>\<^verbatim>\<open>
  for i in range(4):  # 4 weeks
      week_start = current_week + timedelta(weeks=i)
      week_end = week_start + timedelta(days=6)
      week_outlets = high_risk.head((i + 1) * 10)  # Distribute outlets across weeks\<close>\<close>

definition weekly_schedule :: "timestamp \<Rightarrow> app_derived list \<Rightarrow> week_schedule list" where
  "weekly_schedule current_week hr =
     map (\<lambda>i. \<lparr>week = i + 1,
                start_date = current_week + int i * 7 * ns_per_day,
                end_date = current_week + int i * 7 * ns_per_day + 6 * ns_per_day,
                outlets = take ((i + 1) * 10) hr\<rparr>) [0..<4]"

text \<open>
  What \<^verbatim>\<open>get_scheduling\<close> answers: an error when no frame is loaded, else the plan.
  The grouping by location (\<^verbatim>\<open>route_optimization\<close>) is left out.
\<close>

record scheduling =
  schedule_weeks :: "week_schedule list"
  total_inspections_planned :: nat
  estimated_duration_weeks :: nat
  high_priority_outlets :: "app_derived list"

datatype http_error = Data_not_loaded

definition get_scheduling :: "timestamp \<Rightarrow> app_derived list option \<Rightarrow> http_error + scheduling" where
  "get_scheduling now frame =
     (case frame of
        None \<Rightarrow> Inl Data_not_loaded
      | Some rows \<Rightarrow>
          Inr \<lparr>schedule_weeks = weekly_schedule now (high_risk rows),
               total_inspections_planned = length (high_risk rows),
               estimated_duration_weeks = 4,
               high_priority_outlets = take 20 (high_risk rows)\<rparr>)"

section \<open>Model training\<close>

text \<open>
  \<^verbatim>\<open>df[feature_cols + ['Missed_Cleaning']].dropna()\<close> keeps the rows whose four feature
  columns are all present; the target \<^verbatim>\<open>(Days_Since_Collection > 30).astype(int)\<close> is
  never missing. The volume model needs three of the columns.
\<close>

definition feature_complete :: "dp_row \<Rightarrow> bool" where
  "feature_complete r \<longleftrightarrow>
     gallons_of r \<noteq> NaN \<and> cell_float (dp_Traps r) \<noteq> NaN
     \<and> dp_Days_Since_Collection r \<noteq> NaN \<and> dp_Gallons_per_Trap r \<noteq> NaN"

definition volume_complete :: "dp_row \<Rightarrow> bool" where
  "volume_complete r \<longleftrightarrow>
     gallons_of r \<noteq> NaN \<and> cell_float (dp_Traps r) \<noteq> NaN \<and> dp_Days_Since_Collection r \<noteq> NaN"

text \<open>\<^verbatim>\<open>MODEL_SETTINGS['min_data_threshold']\<close> of backend/config/settings.py.\<close>

definition min_data_threshold :: nat where
  "min_data_threshold = 100"

text \<open>
  The learning library is a parameter: \<open>split\<close> is \<^verbatim>\<open>train_test_split\<close> with its fixed
  seed, \<open>fit_classifier\<close> and \<open>fit_regressor\<close> fit a random forest on the training rows
  and score it on the test rows, giving the entry that the trainer stores. Each is
  \<open>None\<close> when the library raises. The dictionary \<^verbatim>\<open>models\<close> is a list of entries in
  the order of insertion, updated as a Python dictionary is.
\<close>

type_synonym splitter = "dp_row list \<Rightarrow> (dp_row list \<times> dp_row list) option"
type_synonym 'm fitter = "dp_row list \<Rightarrow> dp_row list \<Rightarrow> 'm option"

subsection \<open>The trainer (backend/utils/helpers/model\_trainer.py)\<close>

text \<open>
  What \<^verbatim>\<open>prepare_features\<close> returns: the split, or the tuple of three \<^verbatim>\<open>None\<close> of
  its not-enough-data branch, or the tuple of four \<^verbatim>\<open>None\<close> of its exception handler.
\<close>

datatype prepared = Split "dp_row list" "dp_row list" | Three_Nones | Four_Nones

definition prepare_features :: "splitter \<Rightarrow> dp_row list \<Rightarrow> prepared" where
  "prepare_features split frame =
     (let model_data = filter feature_complete frame
      in if length model_data < min_data_threshold then Three_Nones
         else (case split model_data of
                 None \<Rightarrow> Four_Nones
               | Some (train, test) \<Rightarrow> Split train test))"

text \<open>The trainer's state; \<^verbatim>\<open>model_metrics\<close>, written together with \<^verbatim>\<open>models\<close>, is left out.\<close>

record 'm trainer =
  models :: "(string \<times> 'm) list"
  training_timestamp :: "timestamp option"

definition train_missed_cleaning_model ::
  "'m fitter \<Rightarrow> dp_row list \<Rightarrow> dp_row list \<Rightarrow> 'm trainer \<Rightarrow> bool \<times> 'm trainer" where
  "train_missed_cleaning_model fit_classifier train test self =
     (case fit_classifier train test of
        None \<Rightarrow> (False, self)
      | Some m \<Rightarrow> (True, self\<lparr>models := AList.update ''missed_cleaning'' m (models self)\<rparr>))"

definition train_volume_prediction_model ::
  "splitter \<Rightarrow> 'm fitter \<Rightarrow> dp_row list \<Rightarrow> 'm trainer \<Rightarrow> bool \<times> 'm trainer" where
  "train_volume_prediction_model split fit_regressor frame self =
     (let volume_data = filter volume_complete frame
      in if length volume_data < min_data_threshold then (False, self)
         else (case split volume_data of
                 None \<Rightarrow> (False, self)
               | Some (train, test) \<Rightarrow>
                   (case fit_regressor train test of
                      None \<Rightarrow> (False, self)
                    | Some m \<Rightarrow> (True, self\<lparr>models := AList.update ''volume_prediction'' m (models self)\<rparr>))))"

text \<open>
  \<^verbatim>\<open>train_all_models\<close>. It unpacks the result of \<^verbatim>\<open>prepare_features\<close> into four names:
  on the tuple of three that raises \<^verbatim>\<open>ValueError\<close>, which its handler turns into
  \<^verbatim>\<open>False\<close>; on the tuple of four \<^verbatim>\<open>None\<close> the test \<^verbatim>\<open>X_train is None\<close> returns
  \<^verbatim>\<open>False\<close>.
\<close>

definition train_all_models ::
  "timestamp \<Rightarrow> splitter \<Rightarrow> 'm fitter \<Rightarrow> 'm fitter \<Rightarrow> dp_row list \<Rightarrow> 'm trainer \<Rightarrow> bool \<times> 'm trainer" where
  "train_all_models now split fit_classifier fit_regressor frame self =
     (let self1 = self\<lparr>training_timestamp := Some now\<rparr>
      in case prepare_features split frame of
           Three_Nones \<Rightarrow> (False, self1)
         | Four_Nones \<Rightarrow> (False, self1)
         | Split train test \<Rightarrow>
             (case train_missed_cleaning_model fit_classifier train test self1 of
                (ok, self2) \<Rightarrow>
                  if \<not> ok then (False, self2)
                  else (case train_volume_prediction_model split fit_regressor frame self2 of
                          (ok', self3) \<Rightarrow> if \<not> ok' then (False, self3) else (True, self3))))"

subsection \<open>The standalone backend (backend/app\_real.py)\<close>

text \<open>
  \<^verbatim>\<open>train_models\<close> of backend/app\_real.py works on the global dictionary \<^verbatim>\<open>models\<close>
  and has no handler: an exception of the library leaves the function. Its two blocks
  have one shape, \<open>train_one\<close>: the model is trained and stored \<^verbatim>\<open>if len(...) > 100\<close>;
  otherwise the first block prints a warning, the second does nothing, and the function
  goes on.
\<close>

datatype training_error = Library_raised

definition train_one ::
  "splitter \<Rightarrow> 'm fitter \<Rightarrow> string \<Rightarrow> dp_row list \<Rightarrow> (string \<times> 'm) list
     \<Rightarrow> training_error + (string \<times> 'm) list" where
  "train_one split fit name data ms =
     (if length data > 100 then
        (case split data of
           None \<Rightarrow> Inl Library_raised
         | Some (train, test) \<Rightarrow>
             (case fit train test of
                None \<Rightarrow> Inl Library_raised
              | Some m \<Rightarrow> Inr (AList.update name m ms)))
      else Inr ms)"

definition train_models ::
  "splitter \<Rightarrow> 'm fitter \<Rightarrow> 'm fitter \<Rightarrow> dp_row list \<Rightarrow> (string \<times> 'm) list
     \<Rightarrow> training_error + (string \<times> 'm) list" where
  "train_models split fit_classifier fit_regressor frame ms =
     (case train_one split fit_classifier ''missed_cleaning'' (filter feature_complete frame) ms of
        Inl e \<Rightarrow> Inl e
      | Inr ms1 \<Rightarrow>
          train_one split fit_regressor ''volume_prediction'' (filter volume_complete frame) ms1)"

section \<open>Example inputs\<close>

text \<open>Outlet O1 of area Dubai: 1000 gallons from 2 traps, collected at time 0.\<close>

definition example_row :: etl_row where
  "example_row = \<lparr>Outlet = Some ''O1'', Sum_of_Gallons_Collected = Some 1000,
                   Sum_of_No_of_Traps = Some 2, Area = Some ''Dubai'', Category = None,
                   Date = Some 0\<rparr>"

text \<open>Draws of \<^verbatim>\<open>np.random.randint(1, 90, n)\<close>: integers from 1 to 89.\<close>

definition example_draws :: "nat \<Rightarrow> int" where
  "example_draws i = 1 + int i mod 89"

definition example_parse_date :: "cell \<Rightarrow> timestamp option" where
  "example_parse_date c = None"

definition example_parse_num :: "cell \<Rightarrow> pyfloat" where
  "example_parse_num c = NaN"

definition example_dp_row :: dp_row where
  "example_dp_row = \<lparr>dp_Outlet = Some ''O1'', dp_Collected_Date = Stamp 0, dp_Month = Stamp 0,
     dp_Area = Some ''Dubai'', dp_Zone = None, dp_Category = Some ''Restaurant'',
     dp_Gallons = Num (Fin 1000), dp_Traps = Num (Fin 2),
     dp_Days_Since_Collection = NaN, dp_Gallons_per_Trap = NaN\<rparr>"

definition example_frame :: "etl_row list" where
  "example_frame =
     [\<lparr>Outlet = Some ''O1'', Sum_of_Gallons_Collected = Some 1000, Sum_of_No_of_Traps = None,
        Area = Some ''Dubai'', Category = None, Date = Some 0\<rparr>,
      \<lparr>Outlet = Some ''O2'', Sum_of_Gallons_Collected = None, Sum_of_No_of_Traps = Some 2,
        Area = None, Category = Some ''Cafe'', Date = None\<rparr>,
      \<lparr>Outlet = Some ''O3'', Sum_of_Gallons_Collected = Some 5, Sum_of_No_of_Traps = Some 0,
        Area = Some ''Deira'', Category = Some ''Cafe'', Date = Some (50 * ns_per_day)\<rparr>]"

definition example_text_row :: dp_row where
  "example_text_row = \<lparr>dp_Outlet = Some ''O4'', dp_Collected_Date = Text ''soon'', dp_Month = NaT,
     dp_Area = None, dp_Zone = None, dp_Category = None,
     dp_Gallons = Num (Fin 7), dp_Traps = Text ''two'',
     dp_Days_Since_Collection = NaN, dp_Gallons_per_Trap = NaN\<rparr>"

definition example_outlet :: "string \<Rightarrow> rat \<Rightarrow> rat \<Rightarrow> app_row" where
  "example_outlet name efficiency missed =
     \<lparr>Outlet_Name = Some name, Outlet_Type = Some ''Restaurant'', Location = Some ''Al Quoz'',
      Last_Cleaning_Date = Some 0, Trap_Efficiency = Some efficiency,
      Missed_Cleanings = Some missed, Total_Cleanings = Some 12, Gallons_Collected = None\<rparr>"

definition scenario_d :: "app_row list" where
  "scenario_d = [example_outlet ''O1'' 50 20, example_outlet ''O2'' 0 10, example_outlet ''O3'' 100 30,
                 example_outlet ''O4'' 100 20, example_outlet ''O5'' 0 10]"



definition example_split :: splitter where
  "example_split rows =
     Some (drop ((length rows + 4) div 5) rows, take ((length rows + 4) div 5) rows)"

definition example_fit :: "nat fitter" where
  "example_fit train test = Some (length train)"

definition example_empty_row :: dp_row where
  "example_empty_row = \<lparr>dp_Outlet = Some ''O6'', dp_Collected_Date = Stamp 0, dp_Month = Stamp 0,
     dp_Area = Some ''Deira'', dp_Zone = None, dp_Category = None,
     dp_Gallons = Num (Fin 0), dp_Traps = Num (Fin 0),
     dp_Days_Since_Collection = NaN, dp_Gallons_per_Trap = NaN\<rparr>"

definition example_cleaned :: "nat \<Rightarrow> nat \<Rightarrow> dp_row list" where
  "example_cleaned n k =
     map (clean_row example_parse_date example_parse_num (40 * ns_per_day))
         (replicate n example_dp_row @ replicate k example_empty_row)"

section \<open>Properties of the ETL pipeline\<close>

subsection \<open>Minimum, maximum and the min-max normalisation\<close>

lemma col_min_le: "Some x \<in> set col \<Longrightarrow> \<exists>m. col_min col = Some m \<and> m \<le> x"
proof (induction col rule: col_min.induct)
  case 1
  then show ?case by simp
next
  case (2 xs)
  then show ?case by simp
next
  case (3 y xs)
  then show ?case by (cases "col_min xs") (auto simp: min_le_iff_disj)
qed

lemma col_const: "\<forall>x\<in>set col. x = c \<Longrightarrow> col_max col = col_min col \<and> (col_min col = None \<or> col_min col = c)"
proof (induction col)
  case Nil
  then show ?case by simp
next
  case (Cons a col)
  then show ?case by (cases a; cases "col_min col") auto
qed

lemma col_max_ge: "Some x \<in> set col \<Longrightarrow> \<exists>m. col_max col = Some m \<and> x \<le> m"
proof (induction col rule: col_max.induct)
  case 1
  then show ?case by simp
next
  case (2 xs)
  then show ?case by simp
next
  case (3 y xs)
  then show ?case by (cases "col_max xs") (auto simp: le_max_iff_disj)
qed

lemma minmax_norm_cell:
  assumes "x \<in> set col"
  shows "fl_div (to_fl (num_sub x (col_min col))) (to_fl (num_sub (col_max col) (col_min col))) = NaN
       \<or> (\<exists>v. fl_div (to_fl (num_sub x (col_min col))) (to_fl (num_sub (col_max col) (col_min col))) = Fin v)"
proof (cases x)
  case None
  then show ?thesis by (simp add: num_sub_def to_fl_def)
next
  case (Some a)
  with assms have "Some a \<in> set col" by simp
  from col_min_le[OF this] col_max_ge[OF this]
  obtain mn mx where m: "col_min col = Some mn" "mn \<le> a" "col_max col = Some mx" "a \<le> mx"
    by blast
  then show ?thesis using Some by (simp add: num_sub_def to_fl_def)
qed

lemma minmax_norm_finite: "y \<in> set (minmax_norm col) \<Longrightarrow> y = NaN \<or> (\<exists>v. y = Fin v)"
  unfolding minmax_norm_def using minmax_norm_cell[of _ col] by auto

lemma minmax_norm_degenerate:
  assumes "col_max col = col_min col" "y \<in> set (minmax_norm col)"
  shows "y = NaN"
proof -
  from assms(2) obtain x where x: "x \<in> set col"
    and y: "y = fl_div (to_fl (num_sub x (col_min col))) (to_fl (num_sub (col_max col) (col_min col)))"
    unfolding minmax_norm_def by auto
  show ?thesis
  proof (cases x)
    case None
    then show ?thesis using y by (simp add: num_sub_def to_fl_def)
  next
    case (Some a)
    with x have "Some a \<in> set col" by simp
    from col_min_le[OF this] col_max_ge[OF this]
    obtain mn mx where m: "col_min col = Some mn" "mn \<le> a" "col_max col = Some mx" "a \<le> mx"
      by blast
    with assms(1) have "mn = mx" by simp
    with m have "a = mn" by simp
    then show ?thesis using y m Some \<open>mn = mx\<close> by (simp add: num_sub_def to_fl_def)
  qed
qed

lemma risk_cell_nan:
  assumes "g = NaN \<or> d = NaN"
  shows "fl_fillna (1/2) (fl_add (fl_scale (4/10) g) (fl_scale (6/10) d)) = Fin (1/2)"
  using assms by (cases g; cases d) (auto simp: fl_fillna_def)

lemma risk_cell_finite:
  assumes "g = NaN \<or> (\<exists>v. g = Fin v)" "d = NaN \<or> (\<exists>v. d = Fin v)"
  shows "\<exists>s. fl_fillna (1/2) (fl_add (fl_scale (4/10) g) (fl_scale (6/10) d)) = Fin s"
proof (cases "g = NaN \<or> d = NaN")
  case True
  then show ?thesis using risk_cell_nan by blast
next
  case False
  with assms obtain a b where "g = Fin a" "d = Fin b" by blast
  then show ?thesis by (simp add: fl_fillna_def)
qed

lemma calculate_risk_score_cell:
  assumes "s \<in> set (calculate_risk_score gallons days)"
  shows "\<exists>g d. g \<in> set (minmax_norm gallons) \<and> d \<in> set (minmax_norm days)
          \<and> s = fl_fillna (1/2) (fl_add (fl_scale (4/10) g) (fl_scale (6/10) d))"
proof -
  from assms obtain g d where gd: "(g, d) \<in> set (zip (minmax_norm gallons) (minmax_norm days))"
    and s: "s = fl_fillna (1/2) (fl_add (fl_scale (4/10) g) (fl_scale (6/10) d))"
    unfolding calculate_risk_score_def by auto
  from gd have "g \<in> set (minmax_norm gallons)" "d \<in> set (minmax_norm days)"
    by (auto dest: set_zip_leftD set_zip_rightD)
  with s show ?thesis by blast
qed

lemma calculate_risk_score_finite:
  assumes "s \<in> set (calculate_risk_score gallons days)"
  shows "\<exists>v. s = Fin v"
proof -
  from calculate_risk_score_cell[OF assms] obtain g d where
    g: "g \<in> set (minmax_norm gallons)" and d: "d \<in> set (minmax_norm days)"
    and s: "s = fl_fillna (1/2) (fl_add (fl_scale (4/10) g) (fl_scale (6/10) d))" by blast
  show ?thesis unfolding s
    by (rule risk_cell_finite[OF minmax_norm_finite[OF g] minmax_norm_finite[OF d]])
qed

lemma calculate_risk_score_degenerate:
  assumes "col_max gallons = col_min gallons \<or> col_max days = col_min days"
    and "s \<in> set (calculate_risk_score gallons days)"
  shows "s = Fin (1/2)"
proof -
  from calculate_risk_score_cell[OF assms(2)] obtain g d where
    g: "g \<in> set (minmax_norm gallons)" and d: "d \<in> set (minmax_norm days)"
    and s: "s = fl_fillna (1/2) (fl_add (fl_scale (4/10) g) (fl_scale (6/10) d))" by blast
  from assms(1) have "g = NaN \<or> d = NaN"
  proof
    assume "col_max gallons = col_min gallons"
    from minmax_norm_degenerate[OF this g] show ?thesis by simp
  next
    assume "col_max days = col_min days"
    from minmax_norm_degenerate[OF this d] show ?thesis by simp
  qed
  then show ?thesis unfolding s by (rule risk_cell_nan)
qed

lemma length_etl_days: "length (etl_days today randint has_date rows) = length rows"
  by (simp add: etl_days_def)

lemma length_calculate_risk_score:
  "length days = length gallons \<Longrightarrow> length (calculate_risk_score gallons days) = length gallons"
  by (simp add: calculate_risk_score_def minmax_norm_def)

lemma sel_extend:
  "Risk_Score (etl_row.extend r (etl_processed.fields d g s gr)) = s"
  "Grade (etl_row.extend r (etl_processed.fields d g s gr)) = gr"
  "Days_Since_Collection (etl_row.extend r (etl_processed.fields d g s gr)) = d"
  "Gallons_per_Trap (etl_row.extend r (etl_processed.fields d g s gr)) = g"
  "Sum_of_No_of_Traps (etl_row.extend r (etl_processed.fields d g s gr)) = Sum_of_No_of_Traps r"
  "Sum_of_Gallons_Collected (etl_row.extend r (etl_processed.fields d g s gr)) = Sum_of_Gallons_Collected r"
  "Date (etl_row.extend r (etl_processed.fields d g s gr)) = Date r"
  by (simp_all add: etl_row.defs etl_processed.defs)


lemma engineer_features_nth:
  assumes "i < length rows"
  shows "engineer_features today randint has_date rows ! i =
     etl_row.extend (rows ! i)
       (etl_processed.fields (etl_days today randint has_date rows ! i)
          (etl_gallons_per_trap (rows ! i))
          (calculate_risk_score (map Sum_of_Gallons_Collected rows) (etl_days today randint has_date rows) ! i)
          (grade_assigner (calculate_risk_score (map Sum_of_Gallons_Collected rows) (etl_days today randint has_date rows) ! i)))"
  unfolding engineer_features_def Let_def assign_grade_def
  using assms by (simp add: length_etl_days length_calculate_risk_score)

lemma etl_clean_data_nth:
  assumes "i < length raw"
  shows "etl_clean_data today randint has_date raw ! i =
     etl_row.extend (etl_fillna (raw ! i))
       (etl_processed.fields (etl_days today randint has_date (map etl_fillna raw) ! i)
          (etl_gallons_per_trap (etl_fillna (raw ! i)))
          (calculate_risk_score (map Sum_of_Gallons_Collected (map etl_fillna raw)) (etl_days today randint has_date (map etl_fillna raw)) ! i)
          (grade_assigner (calculate_risk_score (map Sum_of_Gallons_Collected (map etl_fillna raw)) (etl_days today randint has_date (map etl_fillna raw)) ! i)))"
  unfolding etl_clean_data_def using assms by (simp add: engineer_features_nth)

lemma etl_risk_in_scores:
  assumes "i < length raw"
  shows "Risk_Score (etl_clean_data today randint has_date raw ! i)
         \<in> set (calculate_risk_score (map Sum_of_Gallons_Collected (map etl_fillna raw))
                   (etl_days today randint has_date (map etl_fillna raw)))"
  using assms by (simp add: etl_clean_data_nth sel_extend length_calculate_risk_score length_etl_days)

lemma etl_grade_of_risk:
  assumes "i < length raw"
  shows "Grade (etl_clean_data today randint has_date raw ! i)
         = grade_assigner (Risk_Score (etl_clean_data today randint has_date raw ! i))"
  using assms by (simp add: etl_clean_data_nth sel_extend)

lemma grade_assigner_buckets:
  "(grade_assigner (Fin s) = A \<longleftrightarrow> s < 1/4)"
  "(grade_assigner (Fin s) = B \<longleftrightarrow> 1/4 \<le> s \<and> s < 1/2)"
  "(grade_assigner (Fin s) = C \<longleftrightarrow> 1/2 \<le> s \<and> s < 3/4)"
  "(grade_assigner (Fin s) = D \<longleftrightarrow> 3/4 \<le> s)"
  by (auto simp: grade_assigner_def)

lemma ml_assign_grade_buckets:
  "(ml_assign_grade (Fin s) = A \<longleftrightarrow> s < 8/100)"
  "(ml_assign_grade (Fin s) = B \<longleftrightarrow> 8/100 \<le> s \<and> s < 2/10)"
  "(ml_assign_grade (Fin s) = C \<longleftrightarrow> 2/10 \<le> s \<and> s < 55/100)"
  "(ml_assign_grade (Fin s) = D \<longleftrightarrow> 55/100 \<le> s)"
  by (auto simp: ml_assign_grade_def)

lemma col_all_equal:
  assumes "\<forall>x\<in>set col. \<forall>y\<in>set col. x = y"
  shows "col_max col = col_min col"
proof (cases col)
  case Nil
  then show ?thesis by simp
next
  case (Cons a as)
  with assms have "\<forall>x\<in>set col. x = a" by simp
  from col_const[OF this] show ?thesis by simp
qed

lemma all_equal_map:
  "\<forall>r\<in>set xs. \<forall>r'\<in>set xs. f r = f r' \<Longrightarrow> \<forall>x\<in>set (map f xs). \<forall>y\<in>set (map f xs). x = y"
  unfolding set_map by blast

subsection \<open>Grades and risk scores\<close>

text \<open>
  Claim C1, as the code has it. The ETL grades the risk score on the normalised scale:
  every derived record has a finite risk score \<open>s\<close>, and its grade is A exactly when
  \<open>s < 0.25\<close>, B exactly when \<open>0.25 \<le> s < 0.5\<close>, C exactly when \<open>0.5 \<le> s < 0.75\<close> and
  D exactly when \<open>0.75 \<le> s\<close>; a score of exactly 0.25 is a B and one of exactly 0.75 a D.
  The grade of a prediction in scripts/train.py is the bucket of its risk score under the
  thresholds 0.08, 0.2 and 0.55.
\<close>

theorem etl_grade_is_bucket:
  assumes "i < length raw"
  shows "(\<exists>s. Risk_Score (etl_clean_data today randint has_date raw ! i) = Fin s
           \<and> (Grade (etl_clean_data today randint has_date raw ! i) = A \<longleftrightarrow> s < 1/4)
           \<and> (Grade (etl_clean_data today randint has_date raw ! i) = B \<longleftrightarrow> 1/4 \<le> s \<and> s < 1/2)
           \<and> (Grade (etl_clean_data today randint has_date raw ! i) = C \<longleftrightarrow> 1/2 \<le> s \<and> s < 3/4)
           \<and> (Grade (etl_clean_data today randint has_date raw ! i) = D \<longleftrightarrow> 3/4 \<le> s))
       \<and> (ml_assign_grade (Fin z) = A \<longleftrightarrow> z < 8/100)
       \<and> (ml_assign_grade (Fin z) = B \<longleftrightarrow> 8/100 \<le> z \<and> z < 2/10)
       \<and> (ml_assign_grade (Fin z) = C \<longleftrightarrow> 2/10 \<le> z \<and> z < 55/100)
       \<and> (ml_assign_grade (Fin z) = D \<longleftrightarrow> 55/100 \<le> z)"
proof -
  from calculate_risk_score_finite[OF etl_risk_in_scores[OF assms]]
  obtain s where s: "Risk_Score (etl_clean_data today randint has_date raw ! i) = Fin s" by blast
  show ?thesis
    unfolding etl_grade_of_risk[OF assms] s
    by (intro exI[of _ s] conjI refl grade_assigner_buckets ml_assign_grade_buckets)
qed

theorem etl_grade_is_bucket_witness:
  "0 < length [example_row]
   \<and> (\<exists>s. Risk_Score (etl_clean_data (40 * ns_per_day) example_draws True [example_row] ! 0) = Fin s
           \<and> (Grade (etl_clean_data (40 * ns_per_day) example_draws True [example_row] ! 0) = C
                \<longleftrightarrow> 1/2 \<le> s \<and> s < 3/4))"
proof -
  have h: "0 < length [example_row]" by simp
  from etl_grade_is_bucket[OF h, of "40 * ns_per_day" example_draws True]
  obtain s where
    "Risk_Score (etl_clean_data (40 * ns_per_day) example_draws True [example_row] ! 0) = Fin s"
    "Grade (etl_clean_data (40 * ns_per_day) example_draws True [example_row] ! 0) = C
       \<longleftrightarrow> 1/2 \<le> s \<and> s < 3/4"
    by blast
  with h show ?thesis by blast
qed

text \<open>
  The thresholds 25, 50 and 75 are not those of the code: both graders give a score of
  exactly 25 the grade D, and the ETL gives the score 0.5, which is below 25, the grade C.
\<close>

theorem etl_grade_counterexample:
  "grade_assigner (Fin 25) = D \<and> ml_assign_grade (Fin 25) = D
   \<and> (1/2 :: rat) < 25 \<and> grade_assigner (Fin (1/2)) = C"
  by (simp add: grade_assigner_def ml_assign_grade_def)

text \<open>
  Claim C10, as the code has it. The risk computation of the ETL is total: every derived
  record has a finite risk score. When the min-max normalisation of the gallons is
  degenerate because every record has the same gallons value (a single record, for one),
  every risk score is the constant 0.5, and its grade is C.
\<close>

theorem etl_degenerate_risk:
  assumes "i < length raw"
  shows "(\<exists>s. Risk_Score (etl_clean_data today randint has_date raw ! i) = Fin s)
       \<and> ((\<forall>r\<in>set raw. \<forall>r'\<in>set raw.
              Sum_of_Gallons_Collected (etl_fillna r) = Sum_of_Gallons_Collected (etl_fillna r'))
            \<longrightarrow> Risk_Score (etl_clean_data today randint has_date raw ! i) = Fin (1/2)
              \<and> Grade (etl_clean_data today randint has_date raw ! i) = C)"
proof (intro conjI impI)
  show "\<exists>s. Risk_Score (etl_clean_data today randint has_date raw ! i) = Fin s"
    by (rule calculate_risk_score_finite[OF etl_risk_in_scores[OF assms]])
next
  assume eq: "\<forall>r\<in>set raw. \<forall>r'\<in>set raw.
              Sum_of_Gallons_Collected (etl_fillna r) = Sum_of_Gallons_Collected (etl_fillna r')"
  have "\<forall>x\<in>set (map Sum_of_Gallons_Collected (map etl_fillna raw)).
             \<forall>y\<in>set (map Sum_of_Gallons_Collected (map etl_fillna raw)). x = y"
    using all_equal_map[of raw "\<lambda>r. Sum_of_Gallons_Collected (etl_fillna r)", OF eq]
    by (simp only: map_map comp_def)
  from col_all_equal[OF this]
  have deg: "col_max (map Sum_of_Gallons_Collected (map etl_fillna raw))
           = col_min (map Sum_of_Gallons_Collected (map etl_fillna raw))
           \<or> col_max (etl_days today randint has_date (map etl_fillna raw))
           = col_min (etl_days today randint has_date (map etl_fillna raw))" by simp
  from calculate_risk_score_degenerate[OF deg etl_risk_in_scores[OF assms]]
  show half: "Risk_Score (etl_clean_data today randint has_date raw ! i) = Fin (1/2)" .
  show "Grade (etl_clean_data today randint has_date raw ! i) = C"
    unfolding etl_grade_of_risk[OF assms] half by (simp add: grade_assigner_def)
qed

theorem etl_degenerate_risk_witness:
  "0 < length [example_row]
   \<and> map (\<lambda>r. Sum_of_Gallons_Collected (etl_fillna r)) [example_row] = [Some 1000]
   \<and> Risk_Score (etl_clean_data (40 * ns_per_day) example_draws True [example_row] ! 0) = Fin (1/2)
   \<and> Grade (etl_clean_data (40 * ns_per_day) example_draws True [example_row] ! 0) = C"
proof -
  have h: "0 < length [example_row]" by simp
  have e: "\<forall>r\<in>set [example_row]. \<forall>r'\<in>set [example_row].
              Sum_of_Gallons_Collected (etl_fillna r) = Sum_of_Gallons_Collected (etl_fillna r')"
    by simp
  have g: "map (\<lambda>r. Sum_of_Gallons_Collected (etl_fillna r)) [example_row] = [Some 1000]"
    by (simp add: etl_fillna_def example_row_def num_fillna_def)
  note t = etl_degenerate_risk[OF h, of "40 * ns_per_day" example_draws True]
  from mp[OF conjunct2[OF t] e] h g show ?thesis
    by (intro conjI) (assumption | erule conjunct1 | erule conjunct2)+
qed

text \<open>A frame of the single record O1: its risk score is 0.5 and its grade is C, not B.\<close>

theorem etl_single_record_counterexample:
  "map Risk_Score (etl_clean_data (40 * ns_per_day) example_draws True [example_row]) = [Fin (1/2)]
   \<and> map Grade (etl_clean_data (40 * ns_per_day) example_draws True [example_row]) = [C]
   \<and> C \<noteq> B"
  by code_simp

section \<open>Properties of the cleaning steps\<close>

lemma to_datetime_idem: "to_datetime p (to_datetime p c) = to_datetime p c"
  by (simp add: to_datetime_def split: cell.splits pyfloat.splits option.splits)

lemma to_numeric_idem: "to_numeric p (to_numeric p c) = to_numeric p c"
  by (simp add: to_numeric_def split: cell.splits)

lemma str_fillna_idem: "str_fillna v (str_fillna v x) = str_fillna v x"
  by (simp add: str_fillna_def split: option.splits)

lemma clean_row_twice:
  "clean_row pd pn now' (clean_row pd pn now r)
     = (clean_row pd pn now r)\<lparr>dp_Days_Since_Collection :=
          cell_days now' (dp_Collected_Date (clean_row pd pn now r))\<rparr>"
  by (simp add: clean_row_def Let_def to_datetime_idem to_numeric_idem str_fillna_idem)

lemma clean_row_idem:
  "clean_row pd pn now (clean_row pd pn now r) = clean_row pd pn now r"
  by (simp add: clean_row_def Let_def to_datetime_idem to_numeric_idem str_fillna_idem)

text \<open>
  Claim C3, as the code has it. \<^verbatim>\<open>clean_data\<close> reads the clock. A second run that reads
  the same clock value changes nothing: result and frame are those of the first run. A
  second run at any other clock value \<open>now'\<close> returns the same flag and changes no
  column but \<^verbatim>\<open>Days_Since_Collection\<close>, which it computes again from \<open>now'\<close>.
\<close>

theorem clean_data_twice:
  "clean_data pd pn now (snd (clean_data pd pn now self)) = clean_data pd pn now self
   \<and> fst (clean_data pd pn now' (snd (clean_data pd pn now self))) = fst (clean_data pd pn now self)
   \<and> df (snd (clean_data pd pn now' (snd (clean_data pd pn now self))))
       = map_option (map (\<lambda>r. r\<lparr>dp_Days_Since_Collection := cell_days now' (dp_Collected_Date r)\<rparr>))
           (df (snd (clean_data pd pn now self)))"
proof (intro conjI)
  show "clean_data pd pn now (snd (clean_data pd pn now self)) = clean_data pd pn now self"
    by (cases "df self") (simp_all add: clean_data_def clean_row_idem comp_def)
  show "fst (clean_data pd pn now' (snd (clean_data pd pn now self))) = fst (clean_data pd pn now self)"
    by (cases "df self") (simp_all add: clean_data_def)
  show "df (snd (clean_data pd pn now' (snd (clean_data pd pn now self))))
       = map_option (map (\<lambda>r. r\<lparr>dp_Days_Since_Collection := cell_days now' (dp_Collected_Date r)\<rparr>))
           (df (snd (clean_data pd pn now self)))"
    by (cases "df self") (simp_all add: clean_data_def clean_row_twice comp_def)
qed

text \<open>
  A frame cleaned 40 days after the collection and again the day after: the second run
  changes \<^verbatim>\<open>Days_Since_Collection\<close> from 40 to 41.
\<close>

theorem clean_data_next_day_counterexample:
  "map_option (map dp_Days_Since_Collection)
     (df (snd (clean_data example_parse_date example_parse_num (40 * ns_per_day)
                 \<lparr>df = Some [example_dp_row]\<rparr>))) = Some [Fin 40]
   \<and> map_option (map dp_Days_Since_Collection)
     (df (snd (clean_data example_parse_date example_parse_num (41 * ns_per_day)
            (snd (clean_data example_parse_date example_parse_num (40 * ns_per_day)
                 \<lparr>df = Some [example_dp_row]\<rparr>))))) = Some [Fin 41]"
  by (simp add: clean_data_def clean_row_def Let_def example_dp_row_def to_datetime_def cell_days_def ns_per_day_def)



lemma traps_etl_fillna: "Sum_of_No_of_Traps (etl_fillna r) = num_fillna 1 (Sum_of_No_of_Traps r)"
  by (simp add: etl_fillna_def)

lemma gallons_etl_fillna: "Sum_of_Gallons_Collected (etl_fillna r) = num_fillna 0 (Sum_of_Gallons_Collected r)"
  by (simp add: etl_fillna_def)



lemma etl_gallons_per_trap_finite:
  assumes "Sum_of_Gallons_Collected r = Some g" "Sum_of_No_of_Traps r = Some t" "t \<noteq> 0"
  shows "etl_gallons_per_trap r = Fin (g / t)"
  using assms by (simp add: etl_gallons_per_trap_def to_fl_def fl_fillna_def)

lemma replace_inf_not_inf: "replace_inf x \<noteq> PInf \<and> replace_inf x \<noteq> NInf"
  by (simp add: replace_inf_def)

lemma dp_gpt_clean_row:
  "dp_Gallons_per_Trap (clean_row pd pn now r)
     = replace_inf (fl_div (cell_float (to_numeric pn (dp_Gallons r))) (cell_float (to_numeric pn (dp_Traps r))))"
  by (simp add: clean_row_def Let_def)


lemma dp_traps_clean_row:
  "dp_Traps (clean_row pd pn now r) = to_numeric pn (dp_Traps r)"
  by (simp add: clean_row_def Let_def)

text \<open>
  Claim C4, as the code has it. After the ETL has filled the missing values, every record
  has a gallons value \<open>g\<close> and a trap count \<open>t\<close>; a missing gallons value has become 0 and
  a missing trap count 1; a value that the input has is kept; and when \<open>t\<close> is not 0, \<^verbatim>\<open>Gallons_per_Trap\<close> is the finite
  number \<open>g / t\<close>. In the data processor \<^verbatim>\<open>Gallons_per_Trap\<close> is never an infinity
  (an infinity is replaced by NaN).
\<close>

theorem trap_count_and_gallons_per_trap:
  assumes "i < length raw"
  shows "(\<exists>g t. Sum_of_Gallons_Collected (etl_clean_data today randint has_date raw ! i) = Some g
            \<and> Sum_of_No_of_Traps (etl_clean_data today randint has_date raw ! i) = Some t
            \<and> (Sum_of_Gallons_Collected (raw ! i) = None \<longrightarrow> g = 0)
            \<and> (Sum_of_No_of_Traps (raw ! i) = None \<longrightarrow> t = 1)
            \<and> (\<forall>v. Sum_of_Gallons_Collected (raw ! i) = Some v \<longrightarrow> g = v)
            \<and> (\<forall>v. Sum_of_No_of_Traps (raw ! i) = Some v \<longrightarrow> t = v)
            \<and> (t \<noteq> 0 \<longrightarrow> Gallons_per_Trap (etl_clean_data today randint has_date raw ! i) = Fin (g / t)))
       \<and> dp_Gallons_per_Trap (clean_row pd pn now r) \<noteq> PInf
       \<and> dp_Gallons_per_Trap (clean_row pd pn now r) \<noteq> NInf"
proof -
  obtain g where g: "Sum_of_Gallons_Collected (etl_fillna (raw ! i)) = Some g"
    and g0: "Sum_of_Gallons_Collected (raw ! i) = None \<longrightarrow> g = 0"
    and gk: "\<forall>v. Sum_of_Gallons_Collected (raw ! i) = Some v \<longrightarrow> g = v"
    by (cases "Sum_of_Gallons_Collected (raw ! i)") (simp_all add: gallons_etl_fillna num_fillna_def)
  obtain t where t: "Sum_of_No_of_Traps (etl_fillna (raw ! i)) = Some t"
    and t1: "Sum_of_No_of_Traps (raw ! i) = None \<longrightarrow> t = 1"
    and tk: "\<forall>v. Sum_of_No_of_Traps (raw ! i) = Some v \<longrightarrow> t = v"
    by (cases "Sum_of_No_of_Traps (raw ! i)") (simp_all add: traps_etl_fillna num_fillna_def)
  have gpt: "t \<noteq> 0 \<longrightarrow> etl_gallons_per_trap (etl_fillna (raw ! i)) = Fin (g / t)"
    using etl_gallons_per_trap_finite[OF g t] by blast
  have "\<exists>g t. Sum_of_Gallons_Collected (etl_clean_data today randint has_date raw ! i) = Some g
            \<and> Sum_of_No_of_Traps (etl_clean_data today randint has_date raw ! i) = Some t
            \<and> (Sum_of_Gallons_Collected (raw ! i) = None \<longrightarrow> g = 0)
            \<and> (Sum_of_No_of_Traps (raw ! i) = None \<longrightarrow> t = 1)
            \<and> (\<forall>v. Sum_of_Gallons_Collected (raw ! i) = Some v \<longrightarrow> g = v)
            \<and> (\<forall>v. Sum_of_No_of_Traps (raw ! i) = Some v \<longrightarrow> t = v)
            \<and> (t \<noteq> 0 \<longrightarrow> Gallons_per_Trap (etl_clean_data today randint has_date raw ! i) = Fin (g / t))"
    unfolding etl_clean_data_nth[OF assms] sel_extend
    by (rule exI[of _ g], rule exI[of _ t]) (intro conjI g t g0 t1 gk tk gpt)
  then show ?thesis using replace_inf_not_inf by (simp add: dp_gpt_clean_row)
qed

text \<open>
  Record O1 has no trap count: it gets 1, and its gallons per trap are its 1000 gallons.
  Record O2 has no gallons: it gets 0, and so are its gallons per trap.
\<close>

theorem trap_count_and_gallons_per_trap_witness:
  "Sum_of_No_of_Traps (example_frame ! 0) = None
   \<and> Sum_of_No_of_Traps (etl_clean_data (40 * ns_per_day) example_draws True example_frame ! 0) = Some 1
   \<and> Gallons_per_Trap (etl_clean_data (40 * ns_per_day) example_draws True example_frame ! 0) = Fin 1000
   \<and> Sum_of_Gallons_Collected (example_frame ! 1) = None
   \<and> Sum_of_Gallons_Collected (etl_clean_data (40 * ns_per_day) example_draws True example_frame ! 1) = Some 0
   \<and> Gallons_per_Trap (etl_clean_data (40 * ns_per_day) example_draws True example_frame ! 1) = Fin 0"
proof -
  let ?out = "etl_clean_data (40 * ns_per_day) example_draws True example_frame"
  have h0: "0 < length example_frame" and h1: "1 < length example_frame"
    by (simp_all add: example_frame_def)
  have m0: "Sum_of_No_of_Traps (example_frame ! 0) = None"
    and m1: "Sum_of_Gallons_Collected (example_frame ! 1) = None"
    by (simp_all add: example_frame_def)
  have e0: "Sum_of_Gallons_Collected (?out ! 0) = Some 1000"
    and e1: "Sum_of_No_of_Traps (?out ! 1) = Some 2"
    by code_simp+
  from conjunct1[OF trap_count_and_gallons_per_trap[OF h0, of "40 * ns_per_day" example_draws True]]
  obtain g t where a: "Sum_of_Gallons_Collected (?out ! 0) = Some g"
    "Sum_of_No_of_Traps (?out ! 0) = Some t"
    "Sum_of_No_of_Traps (example_frame ! 0) = None \<longrightarrow> t = 1"
    "t \<noteq> 0 \<longrightarrow> Gallons_per_Trap (?out ! 0) = Fin (g / t)"
    by (elim exE conjE) (rule that, assumption+)
  from a m0 e0 have r0: "Sum_of_No_of_Traps (?out ! 0) = Some 1" "Gallons_per_Trap (?out ! 0) = Fin 1000"
    by simp_all
  from conjunct1[OF trap_count_and_gallons_per_trap[OF h1, of "40 * ns_per_day" example_draws True]]
  obtain g' t' where b: "Sum_of_Gallons_Collected (?out ! 1) = Some g'"
    "Sum_of_No_of_Traps (?out ! 1) = Some t'"
    "Sum_of_Gallons_Collected (example_frame ! 1) = None \<longrightarrow> g' = 0"
    "t' \<noteq> 0 \<longrightarrow> Gallons_per_Trap (?out ! 1) = Fin (g' / t')"
    by (elim exE conjE) (rule that, assumption+)
  from b m1 e1 have r1: "Sum_of_Gallons_Collected (?out ! 1) = Some 0" "Gallons_per_Trap (?out ! 1) = Fin 0"
    by simp_all
  from m0 m1 r0 r1 show ?thesis by (intro conjI)
qed

text \<open>
  Record O3 has 5 gallons and a trap count of 0: the ETL keeps the 0 and the gallons per
  trap are plus infinity. In the data processor a trap count that is not a number becomes
  NaN, not 1, and the gallons per trap are NaN.
\<close>

theorem zero_trap_count_counterexample:
  "Sum_of_No_of_Traps (example_frame ! 2) = Some 0
   \<and> Sum_of_No_of_Traps (etl_clean_data (40 * ns_per_day) example_draws True example_frame ! 2) = Some 0
   \<and> Gallons_per_Trap (etl_clean_data (40 * ns_per_day) example_draws True example_frame ! 2) = PInf
   \<and> dp_Traps (clean_row example_parse_date example_parse_num (40 * ns_per_day) example_text_row) = Num NaN
   \<and> dp_Gallons_per_Trap (clean_row example_parse_date example_parse_num (40 * ns_per_day) example_text_row) = NaN"
  by code_simp








section \<open>Properties of the first backend\<close>

lemma app_sel:
  "app_Risk_Score (app_row.extend r (app_derived.fields d c s)) = s"
  "Days_Since_Last_Cleaning (app_row.extend r (app_derived.fields d c s)) = d"
  "Trap_Efficiency (app_row.extend r (app_derived.fields d c s)) = Trap_Efficiency r"
  "Missed_Cleanings (app_row.extend r (app_derived.fields d c s)) = Missed_Cleanings r"
  "Outlet_Name (app_row.extend r (app_derived.fields d c s)) = Outlet_Name r"
  by (simp_all add: app_row.defs app_derived.defs)

lemma app_fillna_sel:
  "Trap_Efficiency (app_fillna r) = num_fillna 0 (Trap_Efficiency r)"
  "Missed_Cleanings (app_fillna r) = num_fillna 0 (Missed_Cleanings r)"
  "Last_Cleaning_Date (app_fillna r) = Last_Cleaning_Date r"
  by (simp_all add: app_fillna_def)

lemma app_derive_risk:
  assumes "Days_Since_Last_Cleaning (app_derive now (app_fillna r)) = Some d"
  shows "\<exists>e m. Trap_Efficiency (app_derive now (app_fillna r)) = Some e
           \<and> Missed_Cleanings (app_derive now (app_fillna r)) = Some m
           \<and> app_Risk_Score (app_derive now (app_fillna r))
               = Some (d * (3/10) + (100 - e) * (4/10) + (m * 10) * (3/10))"
proof -
  from assms have d: "dt_days now (Last_Cleaning_Date r) = Some d"
    by (simp add: app_derive_def Let_def app_sel app_fillna_sel)
  obtain e where e: "num_fillna 0 (Trap_Efficiency r) = Some e"
    by (cases "Trap_Efficiency r") (simp_all add: num_fillna_def)
  obtain m where m: "num_fillna 0 (Missed_Cleanings r) = Some m"
    by (cases "Missed_Cleanings r") (simp_all add: num_fillna_def)
  show ?thesis
    by (rule exI[of _ e], rule exI[of _ m])
       (simp add: app_derive_def Let_def app_sel app_fillna_sel d e m num_add_def num_times_def num_rsub_def)
qed

lemma load_nth:
  assumes "i < length (load_and_process_data now rows)"
  shows "\<exists>r. load_and_process_data now rows ! i = app_derive now (app_fillna r)"
  using assms by (auto simp: load_and_process_data_def)

text \<open>
  Claim C2, as the code has it. In the frame of backend/app.py, a record whose days since
  the last cleaning are \<open>d\<close> has the trap efficiency \<open>e\<close> and the missed cleanings \<open>m\<close>
  (0 where the cell was empty) and the risk score
  \<open>0.3 * d + 0.4 * (100 - e) + 0.3 * (m * 10)\<close>: the days are not capped at 100. The score
  is the one of the specification's formula whenever \<open>d \<le> 100\<close>. (The ETL computes its
  risk score from other inputs, with \<open>calculate_risk_score\<close> above.)
\<close>

theorem app_risk_score_formula:
  assumes "i < length (load_and_process_data now rows)"
    and "Days_Since_Last_Cleaning (load_and_process_data now rows ! i) = Some d"
  shows "\<exists>e m. Trap_Efficiency (load_and_process_data now rows ! i) = Some e
           \<and> Missed_Cleanings (load_and_process_data now rows ! i) = Some m
           \<and> app_Risk_Score (load_and_process_data now rows ! i)
               = Some (3/10 * d + 4/10 * (100 - e) + 3/10 * (m * 10))
           \<and> (d \<le> 100 \<longrightarrow>
                app_Risk_Score (load_and_process_data now rows ! i) = Some (spec_risk_score d e m))"
proof -
  from load_nth[OF assms(1)] obtain r where
    r: "load_and_process_data now rows ! i = app_derive now (app_fillna r)" by blast
  from assms(2) have "Days_Since_Last_Cleaning (app_derive now (app_fillna r)) = Some d"
    unfolding r .
  from app_derive_risk[OF this] obtain e m where
    em: "Trap_Efficiency (app_derive now (app_fillna r)) = Some e"
        "Missed_Cleanings (app_derive now (app_fillna r)) = Some m"
        "app_Risk_Score (app_derive now (app_fillna r))
               = Some (d * (3/10) + (100 - e) * (4/10) + (m * 10) * (3/10))"
    by (elim exE conjE) (rule that, assumption+)
  have a: "d * (3/10) + (100 - e) * (4/10) + (m * 10) * (3/10)
         = 3/10 * d + 4/10 * (100 - e) + 3/10 * (m * 10)" by (simp add: algebra_simps)
  have b: "d \<le> 100 \<longrightarrow> 3/10 * d + 4/10 * (100 - e) + 3/10 * (m * 10) = spec_risk_score d e m"
    by (simp add: spec_risk_score_def min_def)
  show ?thesis unfolding r
    by (rule exI[of _ e], rule exI[of _ m]) (use em a b in simp)
qed

text \<open>
  An outlet cleaned 200 days ago, with efficiency 100 and no missed cleaning: the code
  gives the risk score 60, the formula of the specification 30.
\<close>

theorem app_risk_score_counterexample:
  "map Days_Since_Last_Cleaning (load_and_process_data (200 * ns_per_day) [example_outlet ''O1'' 100 0]) = [Some 200]
   \<and> map app_Risk_Score (load_and_process_data (200 * ns_per_day) [example_outlet ''O1'' 100 0]) = [Some 60]
   \<and> spec_risk_score 200 100 0 = 30"
  by code_simp

theorem app_risk_score_formula_witness:
  "0 < length (load_and_process_data (40 * ns_per_day) [example_outlet ''O1'' 50 20])
   \<and> Days_Since_Last_Cleaning (load_and_process_data (40 * ns_per_day) [example_outlet ''O1'' 50 20] ! 0) = Some 40
   \<and> (40::rat) \<le> 100
   \<and> app_Risk_Score (load_and_process_data (40 * ns_per_day) [example_outlet ''O1'' 50 20] ! 0)
       = Some (spec_risk_score 40 50 20)"
proof -
  let ?out = "load_and_process_data (40 * ns_per_day) [example_outlet ''O1'' 50 20]"
  have h: "0 < length ?out" by code_simp
  have d: "Days_Since_Last_Cleaning (?out ! 0) = Some 40" by code_simp
  have e: "Trap_Efficiency (?out ! 0) = Some 50" and m: "Missed_Cleanings (?out ! 0) = Some 20"
    by code_simp+
  have le: "(40::rat) \<le> 100" by simp
  from app_risk_score_formula[OF h d] obtain e' m' where
    a: "Trap_Efficiency (?out ! 0) = Some e'" "Missed_Cleanings (?out ! 0) = Some m'"
       "app_Risk_Score (?out ! 0) = Some (3/10 * 40 + 4/10 * (100 - e') + 3/10 * (m' * 10))"
       "40 \<le> (100::rat) \<longrightarrow> app_Risk_Score (?out ! 0) = Some (spec_risk_score 40 e' m')"
    by (elim exE conjE) (rule that, assumption+)
  from a(1,2) e m have "e' = 50" "m' = 20" by simp_all
  with a(4) le have "app_Risk_Score (?out ! 0) = Some (spec_risk_score 40 50 20)" by simp
  with h d le show ?thesis by (intro conjI)
qed

lemma mset_sort_values_desc: "mset (sort_values_desc key rows) = mset rows"
proof -
  have "mset (sort_values_desc key rows)
      = mset (filter (\<lambda>r. key r \<noteq> None) rows) + mset (filter (\<lambda>r. \<not> key r \<noteq> None) rows)"
    by (simp add: sort_values_desc_def)
  then show ?thesis by (simp only: mset_filter multiset_partition[symmetric])
qed

lemma sorted_desc_rev_sort_key:
  "sorted_wrt (\<lambda>a b. f b \<le> f a) (rev (sort_key f xs))"
proof -
  have "sorted (map f (sort_key f xs))" by (rule sorted_sort_key)
  then have "sorted_wrt (\<lambda>x y. f x \<le> f y) (sort_key f xs)" by (simp only: sorted_map)
  then show ?thesis by (simp only: sorted_wrt_rev)
qed

lemma filter_greater_no_nan:
  "filter (\<lambda>r. key r = None) (filter (\<lambda>r. num_greater (key r) c) rows) = []"
  by (induction rows) (simp_all add: num_greater_def)

lemma filter_greater_all_num:
  "filter (\<lambda>r. key r \<noteq> None) (filter (\<lambda>r. num_greater (key r) c) rows)
     = filter (\<lambda>r. num_greater (key r) c) rows"
  by (induction rows) (simp_all add: num_greater_def)

lemma high_risk_eq:
  "high_risk rows = rev (sort_key (\<lambda>r. num_value (app_Risk_Score r))
                       (rev (filter (\<lambda>r. num_greater (app_Risk_Score r) 70) rows)))"
  unfolding high_risk_def sort_values_desc_def
  by (simp only: filter_greater_no_nan filter_greater_all_num append_Nil2)

lemma num_greater_iff: "num_greater a c \<longleftrightarrow> (\<exists>s. a = Some s \<and> c < s)"
  by (cases a) (simp_all add: num_greater_def)

text \<open>
  Claim C6, as the code has it. The ranking of \<^verbatim>\<open>get_scheduling\<close> holds exactly the
  records whose risk score is strictly greater than 70, each as often as the frame has
  it; it is sorted by descending risk score; every record in it has a score above 70, and
  a record whose score is exactly 70 is not in it. Nothing is said about the order of
  records with equal scores: the code has no tie-break.
\<close>

theorem high_risk_ranking:
  "mset (high_risk rows) = mset (filter (\<lambda>r. num_greater (app_Risk_Score r) 70) rows)
   \<and> sorted_wrt (\<lambda>a b. num_value (app_Risk_Score b) \<le> num_value (app_Risk_Score a)) (high_risk rows)
   \<and> (\<forall>r\<in>set (high_risk rows). \<exists>s. app_Risk_Score r = Some s \<and> 70 < s)
   \<and> (\<forall>r\<in>set rows. app_Risk_Score r = Some 70 \<longrightarrow> r \<notin> set (high_risk rows))"
proof (intro conjI)
  show m: "mset (high_risk rows) = mset (filter (\<lambda>r. num_greater (app_Risk_Score r) 70) rows)"
    unfolding high_risk_def by (rule mset_sort_values_desc)
  show "sorted_wrt (\<lambda>a b. num_value (app_Risk_Score b) \<le> num_value (app_Risk_Score a)) (high_risk rows)"
    unfolding high_risk_eq by (rule sorted_desc_rev_sort_key)
  from m have s: "set (high_risk rows) = set (filter (\<lambda>r. num_greater (app_Risk_Score r) 70) rows)"
    by (rule mset_eq_setD)
  show "\<forall>r\<in>set (high_risk rows). \<exists>s. app_Risk_Score r = Some s \<and> 70 < s"
    unfolding s by (simp add: num_greater_iff)
  show "\<forall>r\<in>set rows. app_Risk_Score r = Some 70 \<longrightarrow> r \<notin> set (high_risk rows)"
    unfolding s by (simp add: num_greater_def)
qed

text \<open>
  Two outlets with the risk score 80, O2 before O1 in the frame: the ranking keeps O2
  before O1, which is not the ascending order of the outlet identifiers.
\<close>

theorem high_risk_tie_counterexample:
  "map app_Risk_Score (high_risk (load_and_process_data 0
       [example_outlet ''O2'' 50 20, example_outlet ''O1'' 50 20])) = [Some 80, Some 80]
   \<and> map Outlet_Name (high_risk (load_and_process_data 0
       [example_outlet ''O2'' 50 20, example_outlet ''O1'' 50 20])) = [Some ''O2'', Some ''O1'']"
  by code_simp

text \<open>
  The scores 80, 70, 90, 60, 70 of outlets O1 to O5: O2, with exactly 70, is left out, and
  the first record of the ranking has a score above 70.
\<close>

theorem high_risk_ranking_witness:
  "load_and_process_data 0 scenario_d ! 1 \<in> set (load_and_process_data 0 scenario_d)
   \<and> app_Risk_Score (load_and_process_data 0 scenario_d ! 1) = Some 70
   \<and> load_and_process_data 0 scenario_d ! 1 \<notin> set (high_risk (load_and_process_data 0 scenario_d))
   \<and> high_risk (load_and_process_data 0 scenario_d) ! 0 \<in> set (high_risk (load_and_process_data 0 scenario_d))
   \<and> (\<exists>s. app_Risk_Score (high_risk (load_and_process_data 0 scenario_d) ! 0) = Some s \<and> 70 < s)"
proof -
  let ?df = "load_and_process_data 0 scenario_d"
  have l1: "1 < length ?df" by code_simp
  have l2: "0 < length (high_risk ?df)" by code_simp
  have in1: "?df ! 1 \<in> set ?df" by (rule nth_mem[OF l1])
  have in2: "high_risk ?df ! 0 \<in> set (high_risk ?df)" by (rule nth_mem[OF l2])
  have eq: "app_Risk_Score (?df ! 1) = Some 70" by code_simp
  note t = high_risk_ranking[of ?df]
  note strict = t[THEN conjunct2, THEN conjunct2, THEN conjunct1, THEN bspec, OF in2]
  note excl = t[THEN conjunct2, THEN conjunct2, THEN conjunct2, THEN bspec, OF in1, THEN mp, OF eq]
  from in1 eq excl in2 strict show ?thesis by (intro conjI)
qed

text \<open>
  Claim C7 at a frame whose only high-risk outlet is O1: each of the four weekly batches
  of \<^verbatim>\<open>get_scheduling\<close> holds O1, since week \<open>i\<close> takes the first \<open>(i + 1) * 10\<close>
  records of the ranking and not the records from position \<open>i * 10\<close> on.
\<close>

theorem weekly_schedule_repeats_outlet:
  "map Outlet_Name (high_risk (load_and_process_data 0 [example_outlet ''O1'' 50 20])) = [Some ''O1'']
   \<and> map (map Outlet_Name) (map outlets
        (weekly_schedule 0 (high_risk (load_and_process_data 0 [example_outlet ''O1'' 50 20]))))
      = [[Some ''O1''], [Some ''O1''], [Some ''O1''], [Some ''O1'']]"
  by code_simp

section \<open>Properties of the aggregation\<close>














section \<open>Properties of the model training\<close>

text \<open>
  Claim C8, as the code has it. With fewer than 100 records whose features are complete,
  \<^verbatim>\<open>ModelTrainer.train_all_models\<close> fails, that is, returns \<^verbatim>\<open>False\<close>, and the
  dictionary of models is what it was before the call: no model is stored. The
  standalone \<^verbatim>\<open>train_models\<close> of backend/app\_real.py does not fail: with at most 100
  such records, and at most 100 records complete for the volume model, it returns
  normally and leaves its dictionary as it was.
\<close>

theorem training_needs_enough_data:
  "(length (filter feature_complete frame) < 100 \<longrightarrow>
      fst (train_all_models now split fit_classifier fit_regressor frame self) = False
      \<and> models (snd (train_all_models now split fit_classifier fit_regressor frame self)) = models self)
   \<and> (length (filter feature_complete frame) \<le> 100 \<and> length (filter volume_complete frame) \<le> 100 \<longrightarrow>
      train_models split fit_classifier fit_regressor frame ms = Inr ms)"
  by (simp add: train_all_models_def prepare_features_def min_data_threshold_def Let_def
        train_models_def train_one_def)

text \<open>
  Fifty complete records: the trainer returns \<^verbatim>\<open>False\<close> with no model stored, and the
  standalone function returns its empty dictionary.
\<close>

theorem training_needs_enough_data_witness:
  "length (filter feature_complete (example_cleaned 50 0)) = 50
   \<and> length (filter volume_complete (example_cleaned 50 0)) = 50
   \<and> fst (train_all_models 0 example_split example_fit example_fit (example_cleaned 50 0)
          \<lparr>models = [], training_timestamp = None\<rparr>) = False
   \<and> models (snd (train_all_models 0 example_split example_fit example_fit (example_cleaned 50 0)
          \<lparr>models = [], training_timestamp = None\<rparr>)) = []
   \<and> train_models example_split example_fit example_fit (example_cleaned 50 0) [] = Inr []"
proof -
  let ?frame = "example_cleaned 50 0"
  let ?self = "\<lparr>models = [], training_timestamp = None\<rparr> :: nat trainer"
  have n: "length (filter feature_complete ?frame) = 50"
    and v: "length (filter volume_complete ?frame) = 50"
    by code_simp+
  have h1: "length (filter feature_complete ?frame) < 100" unfolding n by simp
  have h2: "length (filter feature_complete ?frame) \<le> 100 \<and> length (filter volume_complete ?frame) \<le> 100"
    unfolding n v by simp
  note t = training_needs_enough_data[of ?frame 0 example_split example_fit example_fit ?self "[]"]
  note a = t[THEN conjunct1, THEN mp, OF h1]
  note b = t[THEN conjunct2, THEN mp, OF h2]
  have m: "models ?self = []" by simp
  from n v a[THEN conjunct1] a[THEN conjunct2, unfolded m] b show ?thesis by (intro conjI)
qed

text \<open>
  The standalone \<^verbatim>\<open>train_models\<close> on 50 complete records ends without a failure.
  On 101 records of which 99 are complete (two have no gallons per trap) it stores a
  volume model, trained on the 101 records that are complete for that model.
\<close>

theorem training_without_failure_counterexample:
  "length (filter feature_complete (example_cleaned 50 0)) = 50
   \<and> train_models example_split example_fit example_fit (example_cleaned 50 0) [] = Inr []
   \<and> length (filter feature_complete (example_cleaned 99 2)) = 99
   \<and> train_models example_split example_fit example_fit (example_cleaned 99 2) []
       = Inr [(''volume_prediction'', 80)]"
  by code_simp

end
